theory Spec2Isabelle
  imports Complex_Main "HOL-Library.Multiset"
begin

section \<open>MathWorkers: a shallow embedding of the coordination core\<close>

text \<open>
  The embedding follows the built library file (the concatenation of \<^verbatim>\<open>util.js\<close>,
  \<^verbatim>\<open>event_emitter.js\<close>, \<^verbatim>\<open>pool.js\<close>, \<^verbatim>\<open>coordinator.js\<close>, \<^verbatim>\<open>mathworker.js\<close>,
  \<^verbatim>\<open>vector.js\<close>, \<^verbatim>\<open>matrix.js\<close> and the batch operations). A JavaScript function that
  throws returns its exception as a value; a function that mutates module state or an
  argument takes the state and returns the new one; a \<^verbatim>\<open>postMessage\<close> is the message
  returned or appended to a list of effects.
\<close>

subsection \<open>JavaScript values\<close>

text \<open>
  The exceptions the library throws. \<^verbatim>\<open>Error\<close> and \<^verbatim>\<open>TypeError\<close> carry their message;
  \<^verbatim>\<open>RangeError\<close> and \<^verbatim>\<open>ReferenceError\<close> are the ones the host raises for a negative
  typed-array length and for an undeclared variable.
\<close>

datatype error =
  Error string
  | TypeError string
  | RangeError string
  | ReferenceError string

text \<open>
  A number is a real or \<^verbatim>\<open>NaN\<close>. Arithmetic is exact: the rounding of IEEE doubles, the
  infinities and the sign of zero are outside the model. \<^verbatim>\<open>NaN\<close> absorbs every operation,
  as in JavaScript.
\<close>

datatype jsnum = Val real | NaN

instantiation jsnum :: "{zero, one, plus, minus, times}"
begin

definition zero_jsnum :: jsnum where
  "zero_jsnum = Val 0"

definition one_jsnum :: jsnum where
  "one_jsnum = Val 1"

fun plus_jsnum :: "jsnum \<Rightarrow> jsnum \<Rightarrow> jsnum" where
  "plus_jsnum (Val a) (Val b) = Val (a + b)"
| "plus_jsnum _ _ = NaN"

fun minus_jsnum :: "jsnum \<Rightarrow> jsnum \<Rightarrow> jsnum" where
  "minus_jsnum (Val a) (Val b) = Val (a - b)"
| "minus_jsnum _ _ = NaN"

fun times_jsnum :: "jsnum \<Rightarrow> jsnum \<Rightarrow> jsnum" where
  "times_jsnum (Val a) (Val b) = Val (a * b)"
| "times_jsnum _ _ = NaN"

instance ..

end

instance jsnum :: comm_monoid_add
proof (standard, goal_cases)
  case (1 x y z)
  show ?case by (cases x; cases y; cases z; simp)
next
  case (2 x y)
  show ?case by (cases x; cases y; simp)
next
  case (3 x)
  show ?case by (cases x; simp add: zero_jsnum_def)
qed

instance jsnum :: comm_monoid_mult
proof (standard, goal_cases)
  case (1 x y z)
  show ?case by (cases x; cases y; cases z; simp)
next
  case (2 x y)
  show ?case by (cases x; cases y; simp)
next
  case (3 x)
  show ?case by (cases x; simp add: one_jsnum_def)
qed

text \<open>
  The arguments a caller can pass where the library expects a Vector, a Matrix, a number,
  a tag, a flag or a callback. A function is known by a name only: what a callback does
  when it runs is outside the model.
\<close>

record Vector =
  array :: "jsnum list option"
  length_V :: nat

record Matrix =
  array_M :: "jsnum list list"
  nrows :: nat
  ncols :: nat

datatype jsvalue =
  Undefined
  | Null
  | Boolean bool
  | Number jsnum
  | Str string
  | Array "jsvalue list"
  | VectorObj Vector
  | MatrixObj Matrix
  | Function string
  | PlainObject

text \<open>The truthiness test of \<^verbatim>\<open>if (x)\<close>, \<^verbatim>\<open>x || y\<close> and \<^verbatim>\<open>x && y\<close>.\<close>

fun truthy :: "jsvalue \<Rightarrow> bool" where
  "truthy Undefined = False"
| "truthy Null = False"
| "truthy (Boolean b) = b"
| "truthy (Number (Val x)) = (x \<noteq> 0)"
| "truthy (Number NaN) = False"
| "truthy (Str s) = (s \<noteq> [])"
| "truthy _ = True"

definition js_or :: "jsvalue \<Rightarrow> jsvalue \<Rightarrow> jsvalue" where
  "js_or a b = (if truthy a then a else b)"

subsection \<open>Module state and the load balancer\<close>

text \<open>
  The module-level object \<^verbatim>\<open>global\<close>: the pool (coordinator side), the number of workers
  and this context's worker id (set by \<^verbatim>\<open>_init\<close> on the worker side), and the two options.
  A pool entry is a worker: the script it runs and the messages posted to it so far, of
  which the embedding has \<^verbatim>\<open>_init\<close> with its id, the worker count, the log level and the
  unroll option.
\<close>

datatype worker_msg =
  Init nat nat nat bool

record worker =
  script :: string
  inbox :: "worker_msg list"

record global =
  workerPool :: "worker list"
  nWorkers :: nat
  myWorkerId :: nat
  logLevel :: nat
  unrollLoops :: bool

text \<open>
  \<^verbatim>\<open>x|0\<close> is ToInt32: the integer modulo \<open>2^32\<close>, read as a signed 32-bit value.
\<close>

definition to_int32 :: "int \<Rightarrow> int" where
  "to_int32 x = (x + 2 ^ 31) mod 2 ^ 32 - 2 ^ 31"

record lb_range =
  ifrom :: int
  ito :: int

text \<open>
  \<^verbatim>\<open>MW.util.loadBalance(n)\<close>, for an extent \<open>n\<close> (a vector length or a row or column
  count) and \<^verbatim>\<open>global.nWorkers \<ge> 1\<close>. On these the quotient \<^verbatim>\<open>n / nWorkers\<close> truncates to
  \<open>n div nWorkers\<close> before \<^verbatim>\<open>|0\<close> wraps it, and \<^verbatim>\<open>%\<close> is \<open>mod\<close>. The local names
  \<^verbatim>\<open>id\<close>, \<^verbatim>\<open>div\<close> and \<^verbatim>\<open>rem\<close> are \<open>wid\<close>, \<open>dv\<close> and \<open>rm\<close> here.
\<close>

definition loadBalance :: "global \<Rightarrow> nat \<Rightarrow> lb_range" where
  "loadBalance g n =
     (let wid = int (myWorkerId g);
          dv = to_int32 (int n div int (nWorkers g));
          rm = int n mod int (nWorkers g)
      in if wid < rm
         then \<lparr>ifrom = wid * (dv + 1), ito = wid * (dv + 1) + dv + 1\<rparr>
         else \<lparr>ifrom = wid * dv + rm, ito = wid * dv + rm + dv\<rparr>)"

text \<open>The range worker \<open>i\<close> of \<open>wc\<close> computes for an extent \<open>n\<close>.\<close>

definition worker_range :: "nat \<Rightarrow> nat \<Rightarrow> nat \<Rightarrow> lb_range" where
  "worker_range n wc i =
     loadBalance \<lparr>workerPool = [], nWorkers = wc, myWorkerId = i, logLevel = 1,
       unrollLoops = False\<rparr> n"

text \<open>
  Where the chunk of worker \<open>i\<close> starts when the quotient does not wrap: \<open>i\<close> chunks of
  the base size, and one more element for each earlier worker below the remainder.
\<close>

definition chunk_start :: "nat \<Rightarrow> nat \<Rightarrow> nat \<Rightarrow> nat" where
  "chunk_start n wc i = i * (n div wc) + min i (n mod wc)"

subsection \<open>Loops\<close>

text \<open>
  \<^verbatim>\<open>for (i = i0; i < bound; i += step) body\<close>, for a positive step: the index the loop
  ends with and the state the body has built.
\<close>

function for_loop :: "int \<Rightarrow> int \<Rightarrow> int \<Rightarrow> (int \<Rightarrow> 's \<Rightarrow> 's) \<Rightarrow> 's \<Rightarrow> int \<times> 's" where
  "for_loop i bound step body s =
     (if i < bound \<and> 0 < step then for_loop (i + step) bound step body (body i s)
      else (i, s))"
  by pat_completeness auto
termination
  by (relation "measure (\<lambda>(i, bound, step, body, s). nat (bound - i))") auto

declare for_loop.simps [simp del]

text \<open>
  A read \<^verbatim>\<open>a[i]\<close> of a Float64Array inside an arithmetic expression: out of range it is
  \<^verbatim>\<open>undefined\<close>, which the arithmetic turns into \<^verbatim>\<open>NaN\<close>. A write \<^verbatim>\<open>a[i] = v\<close> out
  of range is ignored.
\<close>

definition rd :: "jsnum list \<Rightarrow> int \<Rightarrow> jsnum" where
  "rd a i = (if 0 \<le> i \<and> i < int (length a) then a ! nat i else NaN)"

definition wr :: "jsnum list \<Rightarrow> int \<Rightarrow> jsnum \<Rightarrow> jsnum list" where
  "wr a i v = (if 0 \<le> i \<and> i < int (length a) then a[nat i := v] else a)"

subsection \<open>Vectors\<close>


subsection \<open>The messages a worker posts\<close>

text \<open>
  The reports of the wire protocol that the embedding covers, one constructor for each
  \<^verbatim>\<open>handle\<close>: \<^verbatim>\<open>_workerReady\<close>, \<^verbatim>\<open>_sendData\<close>, \<^verbatim>\<open>_gatherVector\<close>, \<^verbatim>\<open>_vectorSum\<close> and
  \<^verbatim>\<open>_vectorProduct\<close>. The fields keep the names of the message object. The matrix reports
  and the two send-to-coordinator reports are not modelled.
\<close>

datatype coordinator_msg =
  WorkerReady
  | SendData (msg_id: nat) (tag: jsvalue) (data: jsvalue)
  | GatherVector (tag: jsvalue) (msg_id: nat) (rebroadcast: jsvalue) (len: nat)
      (offset: int) (vectorPart: "jsnum list")
  | VectorSum (tag: jsvalue) (rebroadcast: jsvalue) (tot: jsnum)
  | VectorProduct (tag: jsvalue) (rebroadcast: jsvalue) (tot: jsnum)

text \<open>
  \<^verbatim>\<open>MW.MathWorker.gatherVector\<close>, \<^verbatim>\<open>reduceVectorSum\<close> and \<^verbatim>\<open>reduceVectorProduct\<close>: the
  message each of them posts. A flag that is not given is \<^verbatim>\<open>false\<close>.
\<close>

definition gatherVector ::
  "global \<Rightarrow> jsnum list \<Rightarrow> nat \<Rightarrow> int \<Rightarrow> jsvalue \<Rightarrow> jsvalue \<Rightarrow> coordinator_msg" where
  "gatherVector g vec totalLength off tg rb =
     GatherVector tg (myWorkerId g) (js_or rb (Boolean False)) totalLength off vec"

definition reduceVectorSum :: "jsnum \<Rightarrow> jsvalue \<Rightarrow> jsvalue \<Rightarrow> coordinator_msg" where
  "reduceVectorSum t tg rb = VectorSum tg (js_or rb (Boolean False)) t"


subsection \<open>The coordinator\<close>

text \<open>
  What \<^verbatim>\<open>objectBuffer\<close> can hold under the handlers modelled here: the initial \<^verbatim>\<open>{}\<close>, a
  Vector, a number, or a string. A string arises only when \<^verbatim>\<open>+=\<close> meets a buffer that is
  not a number; such a string starts with a bracket, and its text is not tracked.
\<close>

datatype buffer = ObjEmpty | ObjVector Vector | ObjNumber jsnum | ObjString






text \<open>
  The copy loop of \<^verbatim>\<open>handleGatherVector\<close>:
  \<^verbatim>\<open>for (i = 0; i < tmpArray.length; ++i) objectBuffer.array[offset + i] = tmpArray[i]\<close>.
\<close>

definition copy_part :: "jsnum list \<Rightarrow> int \<Rightarrow> jsnum list \<Rightarrow> jsnum list" where
  "copy_part a off tmpArray =
     snd (for_loop 0 (int (length tmpArray)) 1 (\<lambda>i b. wr b (off + i) (tmpArray ! nat i)) a)"

text \<open>
  The loop on whatever \<^verbatim>\<open>objectBuffer\<close> holds. An empty part never touches the buffer.
  Otherwise the first write throws when \<^verbatim>\<open>objectBuffer.array\<close> is \<^verbatim>\<open>null\<close> (a Vector
  of length 0) or \<^verbatim>\<open>undefined\<close> (the buffer is not a Vector).
\<close>

definition place_part :: "buffer \<Rightarrow> int \<Rightarrow> jsnum list \<Rightarrow> error + buffer" where
  "place_part b off tmpArray =
     (if tmpArray = [] then Inr b
      else case b of
          ObjVector v \<Rightarrow>
            (case array v of
               None \<Rightarrow> Inl (TypeError ''cannot set a property of null'')
             | Some a \<Rightarrow> Inr (ObjVector (v\<lparr>array := Some (copy_part a off tmpArray)\<rparr>)))
        | _ \<Rightarrow> Inl (TypeError ''cannot set a property of undefined''))"










subsection \<open>Rounds of reports\<close>





text \<open>
  What the buffer holds between the first and the last report of a round, by the handle
  of the round's reports.
\<close>

definition buffer_fits :: "string \<Rightarrow> buffer \<Rightarrow> bool" where
  "buffer_fits h b =
     (if h = ''_gatherVector'' then (case b of ObjVector v \<Rightarrow> array v \<noteq> None | _ \<Rightarrow> False)
      else if h = ''_vectorSum'' \<or> h = ''_vectorProduct''
        then (case b of ObjNumber x \<Rightarrow> True | _ \<Rightarrow> False)
      else True)"

text \<open>
  The array a sequence of gather reports leaves behind: each part copied to its offset,
  in the order the reports arrive.
\<close>

definition assemble :: "jsnum list \<Rightarrow> coordinator_msg list \<Rightarrow> jsnum list" where
  "assemble a ms = fold (\<lambda>m b. copy_part b (offset m) (vectorPart m)) ms a"

text \<open>
  The offset of part \<open>i\<close> when the parts are laid out one after another: the number of
  elements in the parts before it.
\<close>

definition part_offset :: "'a list list \<Rightarrow> nat \<Rightarrow> nat" where
  "part_offset parts i = length (concat (take i parts))"

text \<open>
  The elements \<open>xs[a], \<dots>, xs[b - 1]\<close>, and the parts of a vector that the \<open>k\<close> workers
  own under the load balancer, worker 0 first.
\<close>

definition slice :: "'a list \<Rightarrow> int \<Rightarrow> int \<Rightarrow> 'a list" where
  "slice xs a b = take (nat (b - a)) (drop (nat a) xs)"

definition worker_parts :: "jsnum list \<Rightarrow> nat \<Rightarrow> jsnum list list" where
  "worker_parts v k =
     map (\<lambda>i. slice v (ifrom (worker_range (length v) k i)) (ito (worker_range (length v) k i)))
       [0..<k]"

subsection \<open>The argument checks of \<^verbatim>\<open>MW.util\<close>\<close>

text \<open>
  A check returns nothing or throws. \<open>and_then\<close> runs the rest of a function after a
  check that did not throw.
\<close>

definition and_then :: "error + 'a \<Rightarrow> ('a \<Rightarrow> error + 'b) \<Rightarrow> error + 'b" where
  "and_then r f = (case r of Inl e \<Rightarrow> Inl e | Inr x \<Rightarrow> f x)"

fun typeof :: "jsvalue \<Rightarrow> string" where
  "typeof Undefined = ''undefined''"
| "typeof (Boolean b) = ''boolean''"
| "typeof (Number x) = ''number''"
| "typeof (Str s) = ''string''"
| "typeof (Function f) = ''function''"
| "typeof _ = ''object''"

definition nullOrUndefined :: "jsvalue \<Rightarrow> bool" where
  "nullOrUndefined x = (x = Undefined \<or> x = Null)"

definition checkNullOrUndefined :: "jsvalue \<Rightarrow> error + unit" where
  "checkNullOrUndefined x =
     (if nullOrUndefined x then Inl (TypeError ''Undefined or null variable.'') else Inr ())"

definition checkNumber :: "jsvalue \<Rightarrow> error + unit" where
  "checkNumber x =
     and_then (checkNullOrUndefined x) (\<lambda>_.
       if typeof x \<noteq> ''number''
       then Inl (TypeError (''Expected type Number but is type '' @ typeof x))
       else Inr ())"

definition checkFunction :: "jsvalue \<Rightarrow> error + unit" where
  "checkFunction x =
     and_then (checkNullOrUndefined x) (\<lambda>_.
       if typeof x \<noteq> ''function''
       then Inl (TypeError (''Expected type Function but is type '' @ typeof x))
       else Inr ())"

text \<open>\<^verbatim>\<open>v instanceof MW.Vector\<close> and \<^verbatim>\<open>A instanceof MW.Matrix\<close>.\<close>

fun instanceof_Vector :: "jsvalue \<Rightarrow> bool" where
  "instanceof_Vector (VectorObj v) = True"
| "instanceof_Vector _ = False"

fun instanceof_Matrix :: "jsvalue \<Rightarrow> bool" where
  "instanceof_Matrix (MatrixObj A) = True"
| "instanceof_Matrix _ = False"

definition checkVector :: "jsvalue \<Rightarrow> error + Vector" where
  "checkVector v =
     and_then (checkNullOrUndefined v) (\<lambda>_.
       case v of VectorObj u \<Rightarrow> Inr u
       | _ \<Rightarrow> Inl (TypeError ''Expected type Vector but is not.''))"

text \<open>
  \<^verbatim>\<open>checkVectors\<close> returns nothing in the source; here a check that passes hands back the
  Vectors it has seen, which the caller goes on to read.
\<close>

definition checkVectors :: "jsvalue \<Rightarrow> jsvalue \<Rightarrow> error + Vector \<times> Vector" where
  "checkVectors v w =
     and_then (checkVector v) (\<lambda>v'.
     and_then (checkVector w) (\<lambda>w'.
       if length_V v' \<noteq> length_V w' then Inl (Error ''Vectors have unequal lengths.'')
       else Inr (v', w')))"

definition checkMatrix :: "jsvalue \<Rightarrow> error + Matrix" where
  "checkMatrix A =
     and_then (checkNullOrUndefined A) (\<lambda>_.
       case A of MatrixObj M \<Rightarrow> Inr M
       | _ \<Rightarrow> Inl (TypeError ''Expected type Matrix but is not.''))"

definition checkMatrixVector :: "jsvalue \<Rightarrow> jsvalue \<Rightarrow> error + Matrix \<times> Vector" where
  "checkMatrixVector A v =
     and_then (checkMatrix A) (\<lambda>A'.
     and_then (checkVector v) (\<lambda>v'.
       if length_V v' \<noteq> ncols A'
       then Inl (Error ''Vector length and number Matrix columns are unequal.'')
       else Inr (A', v')))"

definition checkMatrixMatrix :: "jsvalue \<Rightarrow> jsvalue \<Rightarrow> error + Matrix \<times> Matrix" where
  "checkMatrixMatrix A B =
     and_then (checkMatrix A) (\<lambda>A'.
     and_then (checkMatrix B) (\<lambda>B'.
       if ncols A' \<noteq> nrows B'
       then Inl (Error
         ''Matrices do not have compatible dimensions for matrix-matrix multiplication.'')
       else Inr (A', B')))"

subsection \<open>The worker versions of the Vector methods\<close>

text \<open>
  A worker method checks its arguments, asks the load balancer for its range, computes
  over the range and posts one message: the result is the exception thrown or the
  message posted. \<^verbatim>\<open>new Float64Array(m)\<close> throws for a negative \<open>m\<close>. The first element read
  throws when the array of a Vector is \<^verbatim>\<open>null\<close>.
\<close>

definition new_Float64Array :: "int \<Rightarrow> error + jsnum list" where
  "new_Float64Array m =
     (if m < 0 then Inl (RangeError ''Invalid typed array length'')
      else Inr (replicate (nat m) 0))"

definition the_array :: "Vector \<Rightarrow> error + jsnum list" where
  "the_array v =
     (case array v of
        None \<Rightarrow> Inl (TypeError ''cannot read a property of null'')
      | Some a \<Rightarrow> Inr a)"

text \<open>
  \<^verbatim>\<open>wkSum\<close>. With \<^verbatim>\<open>unrollLoops\<close> the first loop adds four elements for each \<open>i\<close> and
  steps by \<^verbatim>\<open>++i\<close>, as the source has it; the second loop goes on from the index the
  first one stopped at.
\<close>

definition wkSum_loops :: "bool \<Rightarrow> jsnum list \<Rightarrow> lb_range \<Rightarrow> jsnum" where
  "wkSum_loops unroll a lb =
     (if unroll
      then (let ni3 = ito lb - 3;
                (i1, t1) = for_loop (ifrom lb) ni3 1
                  (\<lambda>i t. t + (rd a i + rd a (i + 1) + rd a (i + 2) + rd a (i + 3))) 0
            in snd (for_loop i1 (ito lb) 1 (\<lambda>i t. t + rd a i) t1))
      else snd (for_loop (ifrom lb) (ito lb) 1 (\<lambda>i t. t + rd a i) 0))"

definition wkSum :: "global \<Rightarrow> Vector \<Rightarrow> jsvalue \<Rightarrow> jsvalue \<Rightarrow> error + coordinator_msg" where
  "wkSum g this tg rb =
     and_then (checkNullOrUndefined tg) (\<lambda>_.
       let lb = loadBalance g (length_V this)
       in if ifrom lb < ito lb
          then and_then (the_array this) (\<lambda>a.
                 Inr (reduceVectorSum (wkSum_loops (unrollLoops g) a lb) tg rb))
          else Inr (reduceVectorSum 0 tg rb))"

text \<open>
  \<^verbatim>\<open>MW.Vector.prototype.sum\<close>, the serial sum: its unrolled loop steps by \<^verbatim>\<open>i += 4\<close>.
\<close>

definition sum_loops :: "bool \<Rightarrow> jsnum list \<Rightarrow> int \<Rightarrow> jsnum" where
  "sum_loops unroll a ni =
     (if unroll
      then (let ni3 = ni - 3;
                (i1, r1) = for_loop 0 ni3 4
                  (\<lambda>i r. r + (rd a i + rd a (i + 1) + rd a (i + 2) + rd a (i + 3))) 0
            in snd (for_loop i1 ni 1 (\<lambda>i r. r + rd a i) r1))
      else snd (for_loop 0 ni 1 (\<lambda>i r. r + rd a i) 0))"

definition sum_V :: "global \<Rightarrow> Vector \<Rightarrow> error + jsnum" where
  "sum_V g this =
     (if 0 < length_V this
      then and_then (the_array this) (\<lambda>a. Inr (sum_loops (unrollLoops g) a (int (length_V this))))
      else Inr 0)"

text \<open>
  The elementwise methods \<^verbatim>\<open>wkPlus\<close>, \<^verbatim>\<open>wkMinus\<close>, \<^verbatim>\<open>wkTimes\<close> and \<^verbatim>\<open>wkDivide\<close> are one
  text with four operators. The loops fill \<^verbatim>\<open>x\<close> at \<^verbatim>\<open>offset++\<close>; the unrolled first loop
  writes four elements for each \<open>i\<close> and steps by \<^verbatim>\<open>++i\<close>, as the source has it.
\<close>

definition put :: "(jsnum \<Rightarrow> jsnum \<Rightarrow> jsnum) \<Rightarrow> jsnum list \<Rightarrow> jsnum list \<Rightarrow> int \<Rightarrow>
    jsnum list \<times> int \<Rightarrow> jsnum list \<times> int" where
  "put f a b i s = (wr (fst s) (snd s) (f (rd a i) (rd b i)), snd s + 1)"

definition elementwise_loops ::
  "bool \<Rightarrow> (jsnum \<Rightarrow> jsnum \<Rightarrow> jsnum) \<Rightarrow> jsnum list \<Rightarrow> jsnum list \<Rightarrow> lb_range \<Rightarrow>
     jsnum list \<Rightarrow> jsnum list" where
  "elementwise_loops unroll f a b lb x =
     (if unroll
      then (let ni3 = ito lb - 3;
                (i1, s1) = for_loop (ifrom lb) ni3 1
                  (\<lambda>i s. put f a b (i + 3) (put f a b (i + 2) (put f a b (i + 1) (put f a b i s))))
                  (x, 0)
            in fst (snd (for_loop i1 (ito lb) 1 (put f a b) s1)))
      else fst (snd (for_loop (ifrom lb) (ito lb) 1 (put f a b) (x, 0))))"

definition wkElementwise ::
  "(jsnum \<Rightarrow> jsnum \<Rightarrow> jsnum) \<Rightarrow> global \<Rightarrow> Vector \<Rightarrow> jsvalue \<Rightarrow> jsvalue \<Rightarrow> jsvalue \<Rightarrow>
     error + coordinator_msg" where
  "wkElementwise f g this w tg rb =
     and_then (checkVectors (VectorObj this) w) (\<lambda>(v', w').
     and_then (checkNullOrUndefined tg) (\<lambda>_.
       let lb = loadBalance g (length_V this)
       in and_then (new_Float64Array (ito lb - ifrom lb)) (\<lambda>x.
            if ifrom lb < ito lb
            then and_then (the_array this) (\<lambda>a.
                 and_then (the_array w') (\<lambda>b.
                   Inr (gatherVector g (elementwise_loops (unrollLoops g) f a b lb x)
                          (length_V this) (ifrom lb) tg rb)))
            else Inr (gatherVector g x (length_V this) (ifrom lb) tg rb))))"

definition wkPlus ::
  "global \<Rightarrow> Vector \<Rightarrow> jsvalue \<Rightarrow> jsvalue \<Rightarrow> jsvalue \<Rightarrow> error + coordinator_msg" where
  "wkPlus = wkElementwise (+)"

definition wkMinus ::
  "global \<Rightarrow> Vector \<Rightarrow> jsvalue \<Rightarrow> jsvalue \<Rightarrow> jsvalue \<Rightarrow> error + coordinator_msg" where
  "wkMinus = wkElementwise (-)"

definition wkTimes ::
  "global \<Rightarrow> Vector \<Rightarrow> jsvalue \<Rightarrow> jsvalue \<Rightarrow> jsvalue \<Rightarrow> error + coordinator_msg" where
  "wkTimes = wkElementwise (*)"

text \<open>\<^verbatim>\<open>wkDotVector\<close>: the same checks, a partial dot product, one reduce message.\<close>

definition wkDotVector_loops :: "bool \<Rightarrow> jsnum list \<Rightarrow> jsnum list \<Rightarrow> lb_range \<Rightarrow> jsnum" where
  "wkDotVector_loops unroll a b lb =
     (if unroll
      then (let ni3 = ito lb - 3;
                (i1, t1) = for_loop (ifrom lb) ni3 4
                  (\<lambda>i t. t + (rd a i * rd b i + rd a (i + 1) * rd b (i + 1)
                             + rd a (i + 2) * rd b (i + 2) + rd a (i + 3) * rd b (i + 3))) 0
            in snd (for_loop i1 (ito lb) 1 (\<lambda>i t. t + rd a i * rd b i) t1))
      else snd (for_loop (ifrom lb) (ito lb) 1 (\<lambda>i t. t + rd a i * rd b i) 0))"

definition wkDotVector ::
  "global \<Rightarrow> Vector \<Rightarrow> jsvalue \<Rightarrow> jsvalue \<Rightarrow> jsvalue \<Rightarrow> error + coordinator_msg" where
  "wkDotVector g this w tg rb =
     and_then (checkVectors (VectorObj this) w) (\<lambda>(v', w').
     and_then (checkNullOrUndefined tg) (\<lambda>_.
       let lb = loadBalance g (length_V this)
       in if ifrom lb < ito lb
          then and_then (the_array this) (\<lambda>a.
               and_then (the_array w') (\<lambda>b.
                 Inr (reduceVectorSum (wkDotVector_loops (unrollLoops g) a b lb) tg rb)))
          else Inr (reduceVectorSum 0 tg rb)))"

subsection \<open>Matrices and the batch operations\<close>

text \<open>
  A Matrix the library builds has \<^verbatim>\<open>nrows\<close> rows of \<^verbatim>\<open>ncols\<close> numbers each, and on these
  every read and write below is in range. \<open>rd2\<close> and \<open>wr2\<close> are \<^verbatim>\<open>rows[i][j]\<close> and
  \<^verbatim>\<open>rows[i][j] = v\<close>; outside the rows they read \<^verbatim>\<open>NaN\<close> and write nothing, where
  JavaScript would throw on the missing row.
\<close>

definition rd2 :: "jsnum list list \<Rightarrow> int \<Rightarrow> int \<Rightarrow> jsnum" where
  "rd2 rows i j = (if 0 \<le> i \<and> i < int (length rows) then rd (rows ! nat i) j else NaN)"

definition wr2 :: "jsnum list list \<Rightarrow> int \<Rightarrow> int \<Rightarrow> jsnum \<Rightarrow> jsnum list list" where
  "wr2 rows i j v =
     (if 0 \<le> i \<and> i < int (length rows) then rows[nat i := wr (rows ! nat i) j v] else rows)"

definition new_Matrix :: "nat \<Rightarrow> nat \<Rightarrow> Matrix" where
  "new_Matrix r c =
     \<lparr>array_M = (if 0 < r \<and> 0 < c then replicate r (replicate c 0) else []),
      nrows = r, ncols = c\<rparr>"

definition isSquare :: "Matrix \<Rightarrow> bool" where
  "isSquare this = (nrows this = ncols this)"

text \<open>\<^verbatim>\<open>transpose\<close> allocates the result; \<^verbatim>\<open>transposeInPlace\<close> swaps above the diagonal.\<close>

definition transpose_M :: "Matrix \<Rightarrow> Matrix" where
  "transpose_M this =
     (let B = new_Matrix (ncols this) (nrows this)
      in B\<lparr>array_M :=
           snd (for_loop 0 (int (nrows this)) 1
             (\<lambda>i rows. snd (for_loop 0 (int (ncols this)) 1
                (\<lambda>j rows. wr2 rows j i (rd2 (array_M this) i j)) rows))
             (array_M B))\<rparr>)"

definition swap_entries :: "int \<Rightarrow> int \<Rightarrow> jsnum list list \<Rightarrow> jsnum list list" where
  "swap_entries i j rows =
     (let tmp = rd2 rows i j;
          rows1 = wr2 rows i j (rd2 rows j i)
      in wr2 rows1 j i tmp)"

definition transposeInPlace :: "Matrix \<Rightarrow> error + Matrix" where
  "transposeInPlace this =
     (if isSquare this
      then Inr (this\<lparr>array_M :=
             snd (for_loop 0 (int (nrows this)) 1
               (\<lambda>i rows. snd (for_loop (i + 1) (int (ncols this)) 1 (swap_entries i) rows))
               (array_M this))\<rparr>)
      else Inl (Error ''In place transpose only available for square matrices.''))"

text \<open>
  The \<^verbatim>\<open>_gatherMatrixRows\<close> message: tag, worker id, rebroadcast flag, total rows, columns,
  rows in this part, offset, and the rows. \<^verbatim>\<open>gatherMatrixRows\<close> reads the column count off
  the first row, which throws when the worker has no row.
\<close>

datatype matrix_rows_msg =
  GatherMatrixRows jsvalue nat jsvalue nat nat nat int "jsnum list list"

definition gatherMatrixRows ::
  "global \<Rightarrow> jsnum list list \<Rightarrow> nat \<Rightarrow> int \<Rightarrow> jsvalue \<Rightarrow> jsvalue \<Rightarrow> error + matrix_rows_msg"
  where
  "gatherMatrixRows g mat totalRows off tg rb =
     (case mat of
        [] \<Rightarrow> Inl (TypeError ''cannot read a property of undefined'')
      | r # rs \<Rightarrow>
          Inr (GatherMatrixRows tg (myWorkerId g) (js_or rb (Boolean False)) totalRows
                 (length r) (length mat) off mat))"

text \<open>The number a value holds once \<^verbatim>\<open>checkNumber\<close> has passed it.\<close>

fun number_of :: "jsvalue \<Rightarrow> jsnum" where
  "number_of (Number x) = x"
| "number_of _ = NaN"

text \<open>
  \<^verbatim>\<open>wkMatrixMatrixPlus\<close>: \<open>D = alpha * A.B + beta * C\<close> over this worker's rows of \<open>A\<close>.
  Row \<open>i\<close> of the part: for each column \<open>j\<close> of \<open>B\<close> the total over \<open>k\<close> of
  \<^verbatim>\<open>A.array[i][k] * Bt.array[j][k]\<close>, scaled, plus the term of \<open>C\<close> when there is one.
\<close>

definition product_row ::
  "jsnum \<Rightarrow> Matrix \<Rightarrow> nat \<Rightarrow> Matrix \<Rightarrow> (int \<Rightarrow> int \<Rightarrow> jsnum) \<Rightarrow> int \<Rightarrow> jsnum list" where
  "product_row a A nc Bt extra i =
     map (\<lambda>j. a * foldl (\<lambda>t k. t + rd2 (array_M A) i (int k) * rd2 (array_M Bt) (int j) (int k))
                    0 [0..<ncols A]
               + extra i (int j))
       [0..<nc]"

definition product_rows ::
  "jsnum \<Rightarrow> Matrix \<Rightarrow> nat \<Rightarrow> Matrix \<Rightarrow> (int \<Rightarrow> int \<Rightarrow> jsnum) \<Rightarrow> lb_range \<Rightarrow> jsnum list list"
  where
  "product_rows a A nc Bt extra lb =
     snd (for_loop (ifrom lb) (ito lb) 1 (\<lambda>i D. D @ [product_row a A nc Bt extra i]) [])"

text \<open>
  The body between the two transpositions: with \<^verbatim>\<open>beta && C\<close> it checks \<open>beta\<close> and \<open>C\<close>
  and adds \<^verbatim>\<open>beta * C.array[i][j]\<close>; otherwise it adds nothing.
\<close>

definition fused_rows ::
  "jsnum \<Rightarrow> Matrix \<Rightarrow> Matrix \<Rightarrow> Matrix \<Rightarrow> lb_range \<Rightarrow> jsvalue \<Rightarrow> jsvalue \<Rightarrow>
     error + jsnum list list" where
  "fused_rows a A B Bt lb beta C =
     (if truthy beta \<and> truthy C
      then and_then (checkNumber beta) (\<lambda>_.
           and_then (checkMatrix C) (\<lambda>C'.
             if \<not> (nrows A = nrows C' \<and> ncols B = ncols C')
             then Inl (Error ''Matrix dimensions not compatible for addition.'')
             else Inr (product_rows a A (ncols B) Bt
                         (\<lambda>i j. number_of beta * rd2 (array_M C') i j) lb)))
      else Inr (product_rows a A (ncols B) Bt (\<lambda>i j. 0) lb))"

text \<open>
  The operation transposes \<open>B\<close> first, in place when \<open>B\<close> is square (then \<^verbatim>\<open>Bt\<close> is \<open>B\<close>
  itself) and into a new Matrix otherwise. After the rows it restores \<open>B\<close> under
  \<^verbatim>\<open>if (B.isSquare)\<close>: the test reads the method and does not call it, so it holds for
  every Matrix and \<^verbatim>\<open>B.transposeInPlace()\<close> always runs. The result is \<open>B\<close> as the call
  leaves it, and the exception thrown or the message posted.
\<close>

definition wkMatrixMatrixPlus ::
  "global \<Rightarrow> jsvalue \<Rightarrow> Matrix \<Rightarrow> Matrix \<Rightarrow> jsvalue \<Rightarrow> jsvalue \<Rightarrow> jsvalue \<Rightarrow> jsvalue \<Rightarrow>
     Matrix \<times> (error + matrix_rows_msg)" where
  "wkMatrixMatrixPlus g alpha A B tg rb beta C =
     (case and_then (checkNumber alpha) (\<lambda>_.
           and_then (checkMatrixMatrix (MatrixObj A) (MatrixObj B)) (\<lambda>_.
             checkNullOrUndefined tg)) of
        Inl e \<Rightarrow> (B, Inl e)
      | Inr _ \<Rightarrow>
          (let B1 = (if isSquare B
                     then (case transposeInPlace B of Inr M \<Rightarrow> M | Inl e \<Rightarrow> B)
                     else B);
               Bt = (if isSquare B then B1 else transpose_M B);
               lb = loadBalance g (nrows A)
           in case fused_rows (number_of alpha) A B Bt lb beta C of
                Inl e \<Rightarrow> (B1, Inl e)
              | Inr D \<Rightarrow>
                  (case transposeInPlace B1 of
                     Inl e \<Rightarrow> (B1, Inl e)
                   | Inr B2 \<Rightarrow> (B2, gatherMatrixRows g D (nrows A) (ifrom lb) tg rb))))"

text \<open>
  \<^verbatim>\<open>wkMatrixVectorPlus\<close>: \<open>z = alpha * A.x + beta * y\<close>. The inner loop runs while
  \<^verbatim>\<open>j < this.ncols\<close>, where \<^verbatim>\<open>this\<close> is the object \<^verbatim>\<open>MW.BatchOperation\<close>, which has no
  \<^verbatim>\<open>ncols\<close>: the bound is \<^verbatim>\<open>undefined\<close> and the comparison is false. Its body reads
  \<^verbatim>\<open>v.array[j]\<close> for a variable \<^verbatim>\<open>v\<close> that is declared nowhere, so a first iteration
  would throw; the total of every row is the 0 it starts with. The term of \<open>y\<close> is \<^verbatim>\<open>beta * y[i]\<close>, an index on the Vector object itself,
  which has the properties \<^verbatim>\<open>array\<close> and \<^verbatim>\<open>length\<close> and no indexed ones.
\<close>

definition BatchOperation_ncols :: "jsnum option" where
  "BatchOperation_ncols = None"

fun less_than :: "int \<Rightarrow> jsnum option \<Rightarrow> bool" where
  "less_than j (Some (Val r)) = (of_int j < r)"
| "less_than j _ = False"

definition Vector_index :: "Vector \<Rightarrow> int \<Rightarrow> jsnum option" where
  "Vector_index y i = None"

fun to_number :: "jsnum option \<Rightarrow> jsnum" where
  "to_number (Some x) = x"
| "to_number None = NaN"

definition row_total :: "error + jsnum" where
  "row_total =
     (if less_than 0 BatchOperation_ncols then Inl (ReferenceError ''v is not defined'')
      else Inr 0)"

definition fill_rows ::
  "(jsnum \<Rightarrow> int \<Rightarrow> jsnum) \<Rightarrow> lb_range \<Rightarrow> jsnum list \<Rightarrow> error + jsnum list" where
  "fill_rows entry lb z =
     (if ifrom lb < ito lb
      then and_then row_total (\<lambda>t.
             Inr (fst (snd (for_loop (ifrom lb) (ito lb) 1
                (\<lambda>i s. (wr (fst s) (snd s) (entry t i), snd s + 1)) (z, 0)))))
      else Inr z)"

definition wkMatrixVectorPlus ::
  "global \<Rightarrow> jsvalue \<Rightarrow> jsvalue \<Rightarrow> jsvalue \<Rightarrow> jsvalue \<Rightarrow> jsvalue \<Rightarrow> jsvalue \<Rightarrow> jsvalue \<Rightarrow>
     error + coordinator_msg" where
  "wkMatrixVectorPlus g alpha A x tg rb beta y =
     and_then (checkNumber alpha) (\<lambda>_.
     and_then (checkMatrixVector A x) (\<lambda>(A', x').
     and_then (checkNullOrUndefined tg) (\<lambda>_.
       let lb = loadBalance g (nrows A')
       in and_then (new_Float64Array (ito lb - ifrom lb)) (\<lambda>z.
            if truthy beta \<and> truthy y
            then and_then (checkNumber beta) (\<lambda>_.
                 and_then (checkVectors x y) (\<lambda>(x'', y').
                 and_then
                   (fill_rows (\<lambda>t i. number_of alpha * t
                        + number_of beta * to_number (Vector_index y' i)) lb z)
                   (\<lambda>z'. Inr (gatherVector g z' (length_V x') (ifrom lb) tg rb))))
            else and_then (fill_rows (\<lambda>t i. number_of alpha * t) lb z)
                   (\<lambda>z'. Inr (gatherVector g z' (length_V x') (ifrom lb) tg rb))))))"

text \<open>
  A Matrix as the library builds it: \<^verbatim>\<open>nrows\<close> rows of \<^verbatim>\<open>ncols\<close> numbers.
\<close>

definition well_formed :: "Matrix \<Rightarrow> bool" where
  "well_formed M =
     (length (array_M M) = nrows M \<and> list_all (\<lambda>r. length r = ncols M) (array_M M))"

text \<open>
  For the proof that two in-place transpositions cancel: \<open>n\<close> rows of \<open>n\<close> numbers; the
  rows while the swap loops are at \<open>(i, j)\<close>, where the pairs above the diagonal of the
  rows before \<open>i\<close>, and of row \<open>i\<close> before column \<open>j\<close>, are swapped already; and the
  rows when the outer loop has reached \<open>i\<close>.
\<close>

definition square_rows :: "nat \<Rightarrow> jsnum list list \<Rightarrow> bool" where
  "square_rows n rows = (length rows = n \<and> (\<forall>p<n. length (rows ! p) = n))"

definition swapped_to :: "nat \<Rightarrow> nat \<Rightarrow> nat \<Rightarrow> jsnum list list \<Rightarrow> jsnum list list \<Rightarrow> bool" where
  "swapped_to n i j rows0 rows =
     (square_rows n rows \<and>
      (\<forall>p<n. \<forall>q<n. rows ! p ! q =
         (if min p q < i \<or> (min p q = i \<and> max p q < j) then rows0 ! q ! p else rows0 ! p ! q)))"

definition transposed_below :: "nat \<Rightarrow> nat \<Rightarrow> jsnum list list \<Rightarrow> jsnum list list \<Rightarrow> bool" where
  "transposed_below n i rows0 rows =
     (square_rows n rows \<and>
      (\<forall>p<n. \<forall>q<n. rows ! p ! q = (if min p q < i then rows0 ! q ! p else rows0 ! p ! q)))"

subsection \<open>Triggers and events\<close>

text \<open>
  What dispatching to the registered callbacks does, in order: a callback is called with
  the arguments, the console gets an error line, or the dispatch ends in an exception
  (calling something that is not a function).
\<close>

datatype dispatch =
  Called string jsvalue
  | ConsoleError string
  | Threw error

text \<open>\<^verbatim>\<open>fns.forEach(function(fn) { fn.call(this, args); })\<close>.\<close>

fun call_each :: "jsvalue list \<Rightarrow> jsvalue \<Rightarrow> dispatch list" where
  "call_each [] args = []"
| "call_each (Function f # fns) args = Called f args # call_each fns args"
| "call_each (x # fns) args = [Threw (TypeError ''fn.call is not a function'')]"

text \<open>
  The worker side: \<^verbatim>\<open>triggers\<close> maps a tag to the array of its callbacks.
  \<^verbatim>\<open>MW.MathWorker.on\<close> stores a one-element array and checks nothing.
  \<^verbatim>\<open>handleTrigger(data, obj)\<close> calls the callbacks of \<^verbatim>\<open>data.tag\<close> with
  \<^verbatim>\<open>data.data || obj || []\<close>, or logs that the tag is not registered.
\<close>

record MathWorker =
  triggers :: "string \<Rightarrow> jsvalue list option"

definition new_MathWorker :: MathWorker where
  "new_MathWorker = \<lparr>triggers = Map.empty\<rparr>"

definition MathWorker_on :: "string \<Rightarrow> jsvalue \<Rightarrow> MathWorker \<Rightarrow> MathWorker" where
  "MathWorker_on tg callback w = w\<lparr>triggers := (triggers w)(tg \<mapsto> [callback])\<rparr>"

definition handleTrigger :: "MathWorker \<Rightarrow> string \<Rightarrow> jsvalue \<Rightarrow> jsvalue \<Rightarrow> dispatch list" where
  "handleTrigger w tg dat obj =
     (case triggers w tg of
        Some fns \<Rightarrow> call_each fns (js_or (js_or dat obj) (Array []))
      | None \<Rightarrow> [ConsoleError (''Unregistered trigger tag: '' @ tg)])"

text \<open>
  \<^verbatim>\<open>EventEmitter\<close>, which the Coordinator and the MathWorker inherit: \<^verbatim>\<open>on\<close> checks that
  the callback is a function and stores a one-element array; \<^verbatim>\<open>emit\<close> calls the callbacks
  of the name with \<^verbatim>\<open>args || []\<close>, after storing an empty array for a name without any.
\<close>

record EventEmitter =
  events :: "string \<Rightarrow> jsvalue list option"

definition EventEmitter_on :: "string \<Rightarrow> jsvalue \<Rightarrow> EventEmitter \<Rightarrow> error + EventEmitter" where
  "EventEmitter_on name callback e =
     and_then (checkFunction callback) (\<lambda>_.
       Inr (e\<lparr>events := (events e)(name \<mapsto> [callback])\<rparr>))"

definition emit :: "string \<Rightarrow> jsvalue \<Rightarrow> EventEmitter \<Rightarrow> dispatch list \<times> EventEmitter" where
  "emit name args e =
     (let fns = (case events e name of Some fns \<Rightarrow> fns | None \<Rightarrow> [])
      in (call_each fns (js_or args (Array [])), e\<lparr>events := (events e)(name \<mapsto> fns)\<rparr>))"

text \<open>A sequence of registrations on a worker, first to last.\<close>

definition register_all :: "(string \<times> jsvalue) list \<Rightarrow> MathWorker \<Rightarrow> MathWorker" where
  "register_all regs w = fold (\<lambda>(tg, callback). MathWorker_on tg callback) regs w"

subsection \<open>The pool\<close>

text \<open>
  The host: whether it has a \<^verbatim>\<open>Worker\<close> constructor. \<^verbatim>\<open>new Worker(script)\<close> and
  \<^verbatim>\<open>postMessage\<close> are taken to succeed on a host that has one.
\<close>

record host =
  Worker_defined :: bool

definition checkWebWorkerSupport :: "host \<Rightarrow> error + unit" where
  "checkWebWorkerSupport h =
     (if \<not> Worker_defined h
      then Inl (Error ''Web Worker support not available for MathWorkers.'')
      else Inr ())"

text \<open>
  \<^verbatim>\<open>global.createPool\<close>: the state of \<^verbatim>\<open>global\<close> it leaves, and the exception if it threw.
  Each turn of the loop starts a worker, posts its \<^verbatim>\<open>_init\<close> message, pushes it on the
  pool and sets \<^verbatim>\<open>nWorkers\<close> to the pool's length.
\<close>

definition start_worker :: "nat \<Rightarrow> string \<Rightarrow> int \<Rightarrow> global \<Rightarrow> global" where
  "start_worker nWorkersInput workerScriptName i g =
     (let w = \<lparr>script = workerScriptName,
                inbox = [Init (nat i) nWorkersInput (logLevel g) (unrollLoops g)]\<rparr>;
          pool = workerPool g @ [w]
      in g\<lparr>workerPool := pool, nWorkers := length pool\<rparr>)"

definition createPool :: "host \<Rightarrow> nat \<Rightarrow> string \<Rightarrow> global \<Rightarrow> global \<times> error option" where
  "createPool h nWorkersInput workerScriptName g =
     (case checkWebWorkerSupport h of
        Inl e \<Rightarrow> (g, Some e)
      | Inr _ \<Rightarrow>
          (snd (for_loop 0 (int nWorkersInput) 1 (start_worker nWorkersInput workerScriptName) g),
           None))"

section \<open>The load balancer\<close>

lemma to_int32_id: "0 \<le> x \<Longrightarrow> x < 2 ^ 31 \<Longrightarrow> to_int32 x = x"
  by (simp add: to_int32_def)

lemma loadBalance_chunk:
  assumes "n < 2 ^ 31" "1 \<le> nWorkers g" "myWorkerId g < nWorkers g"
  shows "ifrom (loadBalance g n) = int (chunk_start n (nWorkers g) (myWorkerId g))"
    and "ito (loadBalance g n) = int (chunk_start n (nWorkers g) (Suc (myWorkerId g)))"
proof -
  have "n div nWorkers g < 2 ^ 31"
    using assms(1) by (rule le_less_trans[OF div_le_dividend])
  then have "int (n div nWorkers g) < int (2 ^ 31)"
    by (simp only: of_nat_less_iff)
  then have b: "int (n div nWorkers g) < 2 ^ 31" by simp
  have a: "0 \<le> int (n div nWorkers g)" by simp
  have q: "to_int32 (int n div int (nWorkers g)) = int (n div nWorkers g)"
    using to_int32_id[OF a b] by (simp add: zdiv_int)
  have r: "int n mod int (nWorkers g) = int (n mod nWorkers g)" by (simp add: zmod_int)
  show "ifrom (loadBalance g n) = int (chunk_start n (nWorkers g) (myWorkerId g))"
    unfolding loadBalance_def Let_def q r chunk_start_def
    by (auto simp: algebra_simps min_def)
  show "ito (loadBalance g n) = int (chunk_start n (nWorkers g) (Suc (myWorkerId g)))"
    unfolding loadBalance_def Let_def q r chunk_start_def
    by (auto simp: algebra_simps min_def)
qed

lemma worker_range_chunk:
  assumes "n < 2 ^ 31" "1 \<le> wc" "i < wc"
  shows "ifrom (worker_range n wc i) = int (chunk_start n wc i)"
    and "ito (worker_range n wc i) = int (chunk_start n wc (Suc i))"
  using loadBalance_chunk[of n "\<lparr>workerPool = [], nWorkers = wc, myWorkerId = i, logLevel = 1,
      unrollLoops = False\<rparr>"] assms
  by (simp_all add: worker_range_def)

lemma chunk_start_mono: "i \<le> j \<Longrightarrow> chunk_start n wc i \<le> chunk_start n wc j"
  unfolding chunk_start_def by (intro add_mono mult_le_mono1) auto

lemma chunk_start_0: "chunk_start n wc 0 = 0"
  by (simp add: chunk_start_def)

lemma chunk_start_all: "1 \<le> wc \<Longrightarrow> chunk_start n wc wc = n"
proof -
  assume "1 \<le> wc"
  then have "n mod wc < wc" by simp
  then show ?thesis by (simp add: chunk_start_def min_def)
qed





section \<open>Basic facts\<close>

text \<open>
  A loop that steps by one from \<open>i\<close> up to \<open>n\<close> is a fold over the indices; delivering
  one more message runs its handler on the state the earlier ones left.
\<close>

lemma for_loop_nat:
  "for_loop (int i) (int n) 1 body s = (int (max i n), fold (\<lambda>k. body (int k)) [i..<n] s)"
proof (induction "n - i" arbitrary: i s)
  case 0
  then show ?case by (subst for_loop.simps) simp
next
  case (Suc d)
  then have less: "i < n" and d: "d = n - Suc i" by simp_all
  have "for_loop (int i) (int n) 1 body s = for_loop (int (Suc i)) (int n) 1 body (body (int i) s)"
    using less by (subst for_loop.simps) (simp add: add.commute)
  also have "\<dots> = (int (max (Suc i) n), fold (\<lambda>k. body (int k)) [Suc i..<n] (body (int i) s))"
    using Suc(1)[OF d] .
  finally show ?case using less by (simp add: upt_rec max_def)
qed

lemma length_wr [simp]: "length (wr a i v) = length a"
  by (simp add: wr_def)

lemma nth_wr: "k < length a \<Longrightarrow> wr a i v ! k = (if i = int k then v else a ! k)"
  by (auto simp: wr_def nth_list_update)


section \<open>The barrier\<close>

lemma copy_part_keeps_array: 
  "place_part (ObjVector v) off part = Inr b \<Longrightarrow> array v \<noteq> None \<Longrightarrow> buffer_fits ''_gatherVector'' b"
  by (auto simp: place_part_def buffer_fits_def split: if_splits option.splits)






section \<open>Reduction\<close>









section \<open>Gathering a vector\<close>

lemma copy_part_fold:
  "copy_part a off tmp = fold (\<lambda>i b. wr b (off + int i) (tmp ! i)) [0..<length tmp] a"
  using for_loop_nat[of 0 "length tmp" "\<lambda>i b. wr b (off + i) (tmp ! nat i)" a]
  by (simp add: copy_part_def)

lemma copy_prefix:
  "length (fold (\<lambda>i b. wr b (off + int i) (tmp ! i)) [0..<j] a) = length a \<and>
   (\<forall>k<length a. fold (\<lambda>i b. wr b (off + int i) (tmp ! i)) [0..<j] a ! k =
      (if off \<le> int k \<and> int k < off + int j then tmp ! nat (int k - off) else a ! k))"
proof (induction j)
  case 0
  then show ?case by auto
next
  case (Suc j)
  define b where "b = fold (\<lambda>i b. wr b (off + int i) (tmp ! i)) [0..<j] a"
  have ih: "length b = length a"
    "\<And>k. k < length a \<Longrightarrow> b ! k =
      (if off \<le> int k \<and> int k < off + int j then tmp ! nat (int k - off) else a ! k)"
    using Suc by (simp_all add: b_def)
  have step: "fold (\<lambda>i b. wr b (off + int i) (tmp ! i)) [0..<Suc j] a = wr b (off + int j) (tmp ! j)"
    by (simp add: b_def)
  have "wr b (off + int j) (tmp ! j) ! k =
      (if off \<le> int k \<and> int k < off + int (Suc j) then tmp ! nat (int k - off) else a ! k)"
    if "k < length a" for k
  proof (cases "off + int j = int k")
    case True
    then have "nat (int k - off) = j" by simp
    moreover have "off \<le> int k" "int k < off + int (Suc j)" using True by simp_all
    ultimately show ?thesis using that True
      by (simp add: nth_wr ih(1))
  next
    case False
    then have "(int k < off + int (Suc j)) = (int k < off + int j)" by auto
    with False that show ?thesis
      by (simp add: nth_wr ih)
  qed
  then show ?case unfolding step by (simp add: ih(1))
qed

lemma length_copy_part [simp]: "length (copy_part a off tmp) = length a"
  using copy_prefix[of off tmp "length tmp" a] by (simp add: copy_part_fold)


lemma copy_part_Nil [simp]: "copy_part a off [] = a"
  by (simp add: copy_part_fold)

lemma length_assemble [simp]: "length (assemble a ms) = length a"
  unfolding assemble_def by (induction ms arbitrary: a) simp_all









text \<open>
  Below \<open>2^31\<close> elements the parts the workers own under the load balancer are such a
  split: they are consecutive, they make up the vector, and the offset of each is the
  \<^verbatim>\<open>ifrom\<close> its worker ships.
\<close>

lemma concat_chunks:
  "j \<le> k \<Longrightarrow>
   concat (map (\<lambda>i. take (chunk_start n k (Suc i) - chunk_start n k i) (drop (chunk_start n k i) v))
     [0..<j]) = take (chunk_start n k j) v"
proof (induction j)
  case 0
  then show ?case by (simp add: chunk_start_0)
next
  case (Suc j)
  have "chunk_start n k j \<le> chunk_start n k (Suc j)"
    by (rule chunk_start_mono) simp
  then have "take (chunk_start n k (Suc j)) v =
      take (chunk_start n k j) v @
      take (chunk_start n k (Suc j) - chunk_start n k j) (drop (chunk_start n k j) v)"
    using take_add[of "chunk_start n k j" "chunk_start n k (Suc j) - chunk_start n k j" v]
    by simp
  with Suc show ?case by simp
qed

lemma worker_parts_chunks:
  assumes "length v < 2 ^ 31" and "1 \<le> k"
  shows "worker_parts v k =
     map (\<lambda>i. take (chunk_start (length v) k (Suc i) - chunk_start (length v) k i)
                 (drop (chunk_start (length v) k i) v)) [0..<k]"
  unfolding worker_parts_def
proof (rule map_cong[OF refl])
  fix i assume "i \<in> set [0..<k]"
  then have i: "i < k" by simp
  have le: "chunk_start (length v) k i \<le> chunk_start (length v) k (Suc i)"
    by (rule chunk_start_mono) simp
  show "slice v (ifrom (worker_range (length v) k i)) (ito (worker_range (length v) k i)) =
      take (chunk_start (length v) k (Suc i) - chunk_start (length v) k i)
        (drop (chunk_start (length v) k i) v)"
    using le by (simp add: slice_def worker_range_chunk[OF assms i] of_nat_diff[symmetric]
        del: of_nat_diff)
qed

lemma worker_parts_tile:
  assumes "length v < 2 ^ 31" and "1 \<le> k"
  shows "length (worker_parts v k) = k \<and> concat (worker_parts v k) = v \<and>
         (\<forall>i<k. int (part_offset (worker_parts v k) i) = ifrom (worker_range (length v) k i))"
proof -
  note chunks = worker_parts_chunks[OF assms]
  have whole: "concat (worker_parts v k) = v"
    using concat_chunks[of k k "length v" v] assms(2)
    by (simp add: chunks chunk_start_all)
  have "int (part_offset (worker_parts v k) i) = ifrom (worker_range (length v) k i)"
    if "i < k" for i
  proof -
    have "chunk_start (length v) k i \<le> chunk_start (length v) k k"
      using that by (intro chunk_start_mono) simp
    then have "chunk_start (length v) k i \<le> length v"
      using assms(2) by (simp add: chunk_start_all)
    moreover have "take i (worker_parts v k) =
        map (\<lambda>i. take (chunk_start (length v) k (Suc i) - chunk_start (length v) k i)
                    (drop (chunk_start (length v) k i) v)) [0..<i]"
      using that by (simp add: chunks take_map)
    ultimately show ?thesis
      using concat_chunks[of i k "length v" v] that
      by (simp add: part_offset_def worker_range_chunk[OF assms that])
  qed
  then show ?thesis
    using whole by (simp add: worker_parts_def)
qed



section \<open>The worker operations on vectors\<close>

lemma checkVectors_cases:
  "checkVectors (VectorObj this) w =
     (if nullOrUndefined w then Inl (TypeError ''Undefined or null variable.'')
      else case w of
          VectorObj u \<Rightarrow>
            if length_V this \<noteq> length_V u then Inl (Error ''Vectors have unequal lengths.'')
            else Inr (this, u)
        | _ \<Rightarrow> Inl (TypeError ''Expected type Vector but is not.''))"
  by (cases w)
    (simp_all add: checkVectors_def checkVector_def checkNullOrUndefined_def and_then_def
      nullOrUndefined_def)

lemma wkElementwise_Inr:
  assumes "wkElementwise f g this w tg rb = Inr m"
  shows "(\<exists>u. w = VectorObj u \<and> length_V u = length_V this) \<and> \<not> nullOrUndefined tg"
proof -
  obtain u where u: "checkVectors (VectorObj this) w = Inr (this, u)"
    using assms
    by (cases "checkVectors (VectorObj this) w")
      (auto simp: wkElementwise_def and_then_def checkVectors_cases split: if_splits jsvalue.splits)
  then have w: "w = VectorObj u" "length_V u = length_V this"
    by (auto simp: checkVectors_cases split: if_splits jsvalue.splits)
  have "\<not> nullOrUndefined tg"
    using assms u
    by (auto simp: wkElementwise_def and_then_def checkNullOrUndefined_def split: if_splits)
  with w show ?thesis by simp
qed

lemma wkDotVector_Inr:
  assumes "wkDotVector g this w tg rb = Inr m"
  shows "(\<exists>u. w = VectorObj u \<and> length_V u = length_V this) \<and> \<not> nullOrUndefined tg"
proof -
  obtain u where u: "checkVectors (VectorObj this) w = Inr (this, u)"
    using assms
    by (cases "checkVectors (VectorObj this) w")
      (auto simp: wkDotVector_def and_then_def checkVectors_cases split: if_splits jsvalue.splits)
  then have w: "w = VectorObj u" "length_V u = length_V this"
    by (auto simp: checkVectors_cases split: if_splits jsvalue.splits)
  have "\<not> nullOrUndefined tg"
    using assms u
    by (auto simp: wkDotVector_def and_then_def checkNullOrUndefined_def split: if_splits)
  with w show ?thesis by simp
qed

text \<open>
  C7. A worker operation on two vectors (the elementwise \<^verbatim>\<open>wkPlus\<close>, \<^verbatim>\<open>wkMinus\<close>,
  \<^verbatim>\<open>wkTimes\<close>, \<^verbatim>\<open>wkDivide\<close>, for any operator \<open>f\<close>, and \<^verbatim>\<open>wkDotVector\<close>) throws and posts
  nothing when the operand is \<^verbatim>\<open>undefined\<close> or \<^verbatim>\<open>null\<close> (TypeError), is not a Vector
  (TypeError), has another length (Error), or when the tag is \<^verbatim>\<open>undefined\<close> or \<^verbatim>\<open>null\<close>
  (TypeError). Conversely a message is posted only for a Vector operand of equal length
  and a tag that is given: nothing is coerced on the way.
\<close>

theorem wk_checks_before_message:
  "(nullOrUndefined w \<longrightarrow>
      wkElementwise f g this w tg rb = Inl (TypeError ''Undefined or null variable.'') \<and>
      wkDotVector g this w tg rb = Inl (TypeError ''Undefined or null variable.'')) \<and>
   (\<not> nullOrUndefined w \<and> \<not> instanceof_Vector w \<longrightarrow>
      wkElementwise f g this w tg rb = Inl (TypeError ''Expected type Vector but is not.'') \<and>
      wkDotVector g this w tg rb = Inl (TypeError ''Expected type Vector but is not.'')) \<and>
   (\<forall>u. w = VectorObj u \<and> length_V u \<noteq> length_V this \<longrightarrow>
      wkElementwise f g this w tg rb = Inl (Error ''Vectors have unequal lengths.'') \<and>
      wkDotVector g this w tg rb = Inl (Error ''Vectors have unequal lengths.'')) \<and>
   (\<forall>u. w = VectorObj u \<and> length_V u = length_V this \<and> nullOrUndefined tg \<longrightarrow>
      wkElementwise f g this w tg rb = Inl (TypeError ''Undefined or null variable.'') \<and>
      wkDotVector g this w tg rb = Inl (TypeError ''Undefined or null variable.'')) \<and>
   (\<forall>m. wkElementwise f g this w tg rb = Inr m \<or> wkDotVector g this w tg rb = Inr m \<longrightarrow>
      (\<exists>u. w = VectorObj u \<and> length_V u = length_V this) \<and> \<not> nullOrUndefined tg)"
proof (intro conjI allI impI)
  fix m
  assume "wkElementwise f g this w tg rb = Inr m \<or> wkDotVector g this w tg rb = Inr m"
  then show "\<exists>u. w = VectorObj u \<and> length_V u = length_V this" and "\<not> nullOrUndefined tg"
    using wkElementwise_Inr wkDotVector_Inr by blast+
qed (auto simp: wkElementwise_def wkDotVector_def checkVectors_cases and_then_def
    checkNullOrUndefined_def nullOrUndefined_def split: jsvalue.splits)

text \<open>
  \<^verbatim>\<open>wkPlus\<close> on lengths 2 and 3, on a \<^verbatim>\<open>null\<close> operand, and without a tag.
\<close>

theorem wk_checks_before_message_witness:
  "wkPlus \<lparr>workerPool = [], nWorkers = 2, myWorkerId = 0, logLevel = 1, unrollLoops = False\<rparr>
     \<lparr>array = Some [Val 1, Val 2], length_V = 2\<rparr>
     (VectorObj \<lparr>array = Some [Val 1, Val 2, Val 3], length_V = 3\<rparr>) (Str ''t'') Undefined =
     Inl (Error ''Vectors have unequal lengths.'') \<and>
   wkPlus \<lparr>workerPool = [], nWorkers = 2, myWorkerId = 0, logLevel = 1, unrollLoops = False\<rparr>
     \<lparr>array = Some [Val 1, Val 2], length_V = 2\<rparr> Null (Str ''t'') Undefined =
     Inl (TypeError ''Undefined or null variable.'') \<and>
   wkPlus \<lparr>workerPool = [], nWorkers = 2, myWorkerId = 0, logLevel = 1, unrollLoops = False\<rparr>
     \<lparr>array = Some [Val 1, Val 2], length_V = 2\<rparr>
     (VectorObj \<lparr>array = Some [Val 3, Val 4], length_V = 2\<rparr>) Undefined Undefined =
     Inl (TypeError ''Undefined or null variable.'')"
proof -
  define g where "g = \<lparr>workerPool = [], nWorkers = 2, myWorkerId = 0, logLevel = 1,
    unrollLoops = False\<rparr>"
  define this where "this = \<lparr>array = Some [Val 1, Val 2], length_V = 2\<rparr>"
  define longer where "longer = \<lparr>array = Some [Val 1, Val 2, Val 3], length_V = 3\<rparr>"
  define other where "other = \<lparr>array = Some [Val 3, Val 4], length_V = 2\<rparr>"
  have "wkElementwise (+) g this (VectorObj longer) (Str ''t'') Undefined =
      Inl (Error ''Vectors have unequal lengths.'')"
    using wk_checks_before_message[of "VectorObj longer" "(+)" g this "Str ''t''" Undefined]
    by (simp add: longer_def this_def)
  moreover have "wkElementwise (+) g this Null (Str ''t'') Undefined =
      Inl (TypeError ''Undefined or null variable.'')"
    using wk_checks_before_message[of Null "(+)" g this "Str ''t''" Undefined]
    by (simp add: nullOrUndefined_def)
  moreover have "wkElementwise (+) g this (VectorObj other) Undefined Undefined =
      Inl (TypeError ''Undefined or null variable.'')"
    using wk_checks_before_message[of "VectorObj other" "(+)" g this Undefined Undefined]
    by (simp add: nullOrUndefined_def other_def this_def)
  ultimately show ?thesis
    unfolding wkPlus_def g_def this_def longer_def other_def by simp
qed

text \<open>
  Without \<^verbatim>\<open>unrollLoops\<close> the total \<^verbatim>\<open>wkSum\<close> reports is the sum of the elements of its
  range.
\<close>

lemma fold_plus_range:
  "t \<le> length a \<Longrightarrow>
   fold (\<lambda>k r. r + rd a (int k)) [f..<t] r0 = r0 + sum_list (take (t - f) (drop f a))"
proof (induction "t - f" arbitrary: f r0)
  case 0
  then show ?case by simp
next
  case (Suc d)
  then have less: "f < t" and d: "d = t - Suc f" by simp_all
  have here: "rd a (int f) = a ! f"
    using less Suc.prems by (simp add: rd_def)
  have "take (t - f) (drop f a) = a ! f # take (t - Suc f) (drop (Suc f) a)"
    using less Suc.prems
    by (metis Cons_nth_drop_Suc Suc_diff_Suc less_le_trans take_Suc_Cons)
  then show ?case
    using Suc(1)[OF d Suc.prems, of "r0 + a ! f"] less
    by (simp add: upt_rec[of f t] here add.assoc)
qed

lemma wkSum_plain_range_sum:
  assumes "0 \<le> ifrom lb" and "ifrom lb \<le> ito lb" and "ito lb \<le> int (length a)"
  shows "wkSum_loops False a lb = sum_list (slice a (ifrom lb) (ito lb))"
proof -
  obtain f t where ft: "ifrom lb = int f" "ito lb = int t"
    using assms(1,2) by (metis nonneg_int_cases order_trans)
  have "t \<le> length a" using assms(3) ft by simp
  then show ?thesis
    using for_loop_nat[of f t "\<lambda>i r. r + rd a i" 0] assms(2) ft
    by (simp add: wkSum_loops_def slice_def fold_plus_range of_nat_diff[symmetric]
        del: of_nat_diff)
qed

text \<open>
  C10 fails on the code. On the vector 1, 2, 3, 4 with one worker, \<^verbatim>\<open>wkSum\<close> reports 19
  when \<^verbatim>\<open>unrollLoops\<close> is set and 10 when it is not; the serial \<^verbatim>\<open>sum\<close>, whose unrolled
  loop steps by four, is 10 either way.
\<close>

theorem wkSum_unrolled_overcounts:
  "wkSum \<lparr>workerPool = [], nWorkers = 1, myWorkerId = 0, logLevel = 1, unrollLoops = True\<rparr>
     \<lparr>array = Some [Val 1, Val 2, Val 3, Val 4], length_V = 4\<rparr> (Str ''s'') Undefined =
     Inr (VectorSum (Str ''s'') (Boolean False) (Val 19)) \<and>
   wkSum \<lparr>workerPool = [], nWorkers = 1, myWorkerId = 0, logLevel = 1, unrollLoops = False\<rparr>
     \<lparr>array = Some [Val 1, Val 2, Val 3, Val 4], length_V = 4\<rparr> (Str ''s'') Undefined =
     Inr (VectorSum (Str ''s'') (Boolean False) (Val 10)) \<and>
   sum_V \<lparr>workerPool = [], nWorkers = 1, myWorkerId = 0, logLevel = 1, unrollLoops = True\<rparr>
     \<lparr>array = Some [Val 1, Val 2, Val 3, Val 4], length_V = 4\<rparr> = Inr (Val 10)"
  by (simp add: wkSum_def sum_V_def and_then_def checkNullOrUndefined_def nullOrUndefined_def
      loadBalance_def to_int32_def the_array_def wkSum_loops_def sum_loops_def
      reduceVectorSum_def js_or_def rd_def for_loop.simps zero_jsnum_def Let_def)

section \<open>The batch operations\<close>

lemmas batch_eval =
  and_then_def checkNumber_def checkNullOrUndefined_def nullOrUndefined_def checkMatrix_def
  checkVector_def checkVectors_def checkMatrixVector_def checkMatrixMatrix_def
  loadBalance_def to_int32_def new_Float64Array_def gatherVector_def js_or_def
  for_loop.simps wr_def rd_def wr2_def rd2_def zero_jsnum_def Let_def

text \<open>
  C6 fails on the code. For \<open>alpha = 2\<close>, \<open>A\<close> with rows 1, 2 and 3, 4, \<open>x\<close> = 5, 6,
  \<open>beta = 3\<close> and \<open>y\<close> = 7, 8, one worker ships \<^verbatim>\<open>NaN\<close>, \<^verbatim>\<open>NaN\<close> where the claim has 55
  and 102; without \<open>beta\<close> and \<open>y\<close> it ships 0, 0 where \<open>alpha * A.x\<close> is 34 and 78.
\<close>

theorem wkMatrixVectorPlus_ships_NaN:
  "wkMatrixVectorPlus
     \<lparr>workerPool = [], nWorkers = 1, myWorkerId = 0, logLevel = 1, unrollLoops = False\<rparr>
     (Number (Val 2))
     (MatrixObj \<lparr>array_M = [[Val 1, Val 2], [Val 3, Val 4]], nrows = 2, ncols = 2\<rparr>)
     (VectorObj \<lparr>array = Some [Val 5, Val 6], length_V = 2\<rparr>)
     (Str ''z'') Undefined (Number (Val 3))
     (VectorObj \<lparr>array = Some [Val 7, Val 8], length_V = 2\<rparr>) =
     Inr (GatherVector (Str ''z'') 0 (Boolean False) 2 0 [NaN, NaN]) \<and>
   wkMatrixVectorPlus
     \<lparr>workerPool = [], nWorkers = 1, myWorkerId = 0, logLevel = 1, unrollLoops = False\<rparr>
     (Number (Val 2))
     (MatrixObj \<lparr>array_M = [[Val 1, Val 2], [Val 3, Val 4]], nrows = 2, ncols = 2\<rparr>)
     (VectorObj \<lparr>array = Some [Val 5, Val 6], length_V = 2\<rparr>)
     (Str ''z'') Undefined Undefined Undefined =
     Inr (GatherVector (Str ''z'') 0 (Boolean False) 2 0 [Val 0, Val 0])"
  by (simp add: wkMatrixVectorPlus_def fill_rows_def row_total_def BatchOperation_ncols_def
      Vector_index_def numeral_2_eq_2 batch_eval)


text \<open>
  For a square \<open>B\<close> the two in-place transpositions cancel: the call returns, posts the
  rows of \<open>A.B\<close>, and leaves \<open>B\<close> as it was.
\<close>

lemma wkMatrixMatrixPlus_square_example:
  "wkMatrixMatrixPlus
     \<lparr>workerPool = [], nWorkers = 1, myWorkerId = 0, logLevel = 1, unrollLoops = False\<rparr>
     (Number (Val 1))
     \<lparr>array_M = [[Val 1, Val 2], [Val 3, Val 4]], nrows = 2, ncols = 2\<rparr>
     \<lparr>array_M = [[Val 5, Val 6], [Val 7, Val 8]], nrows = 2, ncols = 2\<rparr>
     (Str ''D'') Undefined Undefined Undefined =
     (\<lparr>array_M = [[Val 5, Val 6], [Val 7, Val 8]], nrows = 2, ncols = 2\<rparr>,
      Inr (GatherMatrixRows (Str ''D'') 0 (Boolean False) 2 2 2 0
             [[Val 19, Val 22], [Val 43, Val 50]]))"
  by (simp add: wkMatrixMatrixPlus_def fused_rows_def product_rows_def product_row_def
      transposeInPlace_def transpose_M_def isSquare_def new_Matrix_def swap_entries_def
      gatherMatrixRows_def upt_rec batch_eval)

subsection \<open>Two in-place transpositions cancel\<close>

lemma swap_entries_square:
  "square_rows n rows \<Longrightarrow> square_rows n (swap_entries (int i) (int j) rows)"
  by (auto simp: square_rows_def swap_entries_def wr2_def rd2_def wr_def rd_def Let_def
      nth_list_update)

lemma swap_entries_nth:
  assumes "square_rows n rows" "i < n" "j < n" "i \<noteq> j" "p < n" "q < n"
  shows "swap_entries (int i) (int j) rows ! p ! q =
     (if p = i \<and> q = j then rows ! j ! i else if p = j \<and> q = i then rows ! i ! j
      else rows ! p ! q)"
  using assms
  by (auto simp: square_rows_def swap_entries_def wr2_def rd2_def wr_def rd_def Let_def
      nth_list_update)

lemma swapped_to_step:
  assumes "swapped_to n i j rows0 rows" "i < j" "j < n"
  shows "swapped_to n i (Suc j) rows0 (swap_entries (int i) (int j) rows)"
proof -
  have sq: "square_rows n rows" using assms(1) by (simp add: swapped_to_def)
  have i: "i < n" "i \<noteq> j" using assms(2,3) by simp_all
  have old: "rows ! p ! q =
      (if min p q < i \<or> (min p q = i \<and> max p q < j) then rows0 ! q ! p else rows0 ! p ! q)"
    if "p < n" "q < n" for p q
    using assms(1) that by (simp add: swapped_to_def)
  have "swap_entries (int i) (int j) rows ! p ! q =
      (if min p q < i \<or> (min p q = i \<and> max p q < Suc j) then rows0 ! q ! p else rows0 ! p ! q)"
    if "p < n" "q < n" for p q
  proof -
    consider "p = i \<and> q = j" | "p = j \<and> q = i" | "\<not> (p = i \<and> q = j) \<and> \<not> (p = j \<and> q = i)"
      by blast
    then show ?thesis
    proof cases
      case 1
      then show ?thesis
        using swap_entries_nth[OF sq i(1) assms(3) i(2) that] old[OF assms(3) i(1)] assms(2)
        by (simp add: min_def max_def)
    next
      case 2
      then show ?thesis
        using swap_entries_nth[OF sq i(1) assms(3) i(2) that] old[OF i(1) assms(3)] assms(2)
        by (simp add: min_def max_def)
    next
      case 3
      have same: "swap_entries (int i) (int j) rows ! p ! q = rows ! p ! q"
        using swap_entries_nth[OF sq i(1) assms(3) i(2) that] 3 by simp
      have "max p q \<noteq> j" if "min p q = i"
        using that 3 by (cases "p \<le> q") (simp_all add: min_def max_def)
      then have "(min p q = i \<and> max p q < Suc j) = (min p q = i \<and> max p q < j)"
        using less_Suc_eq by blast
      then show ?thesis
        unfolding same old[OF that] by simp
    qed
  qed
  then show ?thesis
    using swap_entries_square[OF sq] by (simp add: swapped_to_def)
qed

lemma swapped_to_inner:
  assumes "swapped_to n i j rows0 rows" "i < j" "j \<le> n"
  shows "swapped_to n i n rows0 (fold (\<lambda>k. swap_entries (int i) (int k)) [j..<n] rows)"
  using assms
proof (induction "n - j" arbitrary: j rows)
  case 0
  then show ?case by simp
next
  case (Suc d)
  then have less: "j < n" and d: "d = n - Suc j" by simp_all
  have "swapped_to n i (Suc j) rows0 (swap_entries (int i) (int j) rows)"
    using swapped_to_step[OF Suc.prems(1,2) less] .
  from Suc(1)[OF d this] Suc.prems(2) less show ?case
    by (simp add: upt_rec[of j n])
qed


lemma transposed_below_outer:
  assumes "square_rows n rows0" and "i \<le> n"
  shows "transposed_below n i rows0
     (fold (\<lambda>i rows. fold (\<lambda>k. swap_entries (int i) (int k)) [Suc i..<n] rows) [0..<i] rows0)"
  using assms(2)
proof (induction i)
  case 0
  then show ?case using assms(1) by (simp add: transposed_below_def)
next
  case (Suc i)
  define rows where
    "rows = fold (\<lambda>i rows. fold (\<lambda>k. swap_entries (int i) (int k)) [Suc i..<n] rows) [0..<i] rows0"
  have before: "transposed_below n i rows0 rows"
    using Suc by (simp add: rows_def)
  have "swapped_to n i (Suc i) rows0 rows"
    unfolding swapped_to_def
  proof (intro conjI allI impI)
    show "square_rows n rows" using before by (simp add: transposed_below_def)
  next
    fix p q assume pq: "p < n" "q < n"
    have diag: "p = q" if "min p q = i" "max p q < Suc i"
      using that by (simp add: min_def max_def split: if_splits)
    show "rows ! p ! q =
        (if min p q < i \<or> min p q = i \<and> max p q < Suc i then rows0 ! q ! p else rows0 ! p ! q)"
      using before pq diag by (auto simp: transposed_below_def)
  qed
  then have after: "swapped_to n i n rows0 (fold (\<lambda>k. swap_entries (int i) (int k)) [Suc i..<n] rows)"
    using Suc.prems by (intro swapped_to_inner) simp_all
  have "transposed_below n (Suc i) rows0 (fold (\<lambda>k. swap_entries (int i) (int k)) [Suc i..<n] rows)"
    unfolding transposed_below_def
  proof (intro conjI allI impI)
    show "square_rows n (fold (\<lambda>k. swap_entries (int i) (int k)) [Suc i..<n] rows)"
      using after by (simp add: swapped_to_def)
  next
    fix p q assume pq: "p < n" "q < n"
    then have "(min p q < i \<or> min p q = i \<and> max p q < n) = (min p q < Suc i)"
      by (auto simp: min_def max_def)
    then show "fold (\<lambda>k. swap_entries (int i) (int k)) [Suc i..<n] rows ! p ! q =
        (if min p q < Suc i then rows0 ! q ! p else rows0 ! p ! q)"
      using after pq by (simp add: swapped_to_def)
  qed
  then show ?case by (simp add: rows_def)
qed

lemma transposeInPlace_loops:
  "snd (for_loop 0 (int n) 1
      (\<lambda>i rows. snd (for_loop (i + 1) (int n) 1 (swap_entries i) rows)) rows0) =
   fold (\<lambda>i rows. fold (\<lambda>k. swap_entries (int i) (int k)) [Suc i..<n] rows) [0..<n] rows0"
proof -
  have inner: "snd (for_loop (int i + 1) (int n) 1 (swap_entries (int i)) rows) =
      fold (\<lambda>k. swap_entries (int i) (int k)) [Suc i..<n] rows" for i rows
    using for_loop_nat[of "Suc i" n "swap_entries (int i)" rows] by (simp add: add.commute)
  show ?thesis
    using for_loop_nat[of 0 n "\<lambda>i rows. snd (for_loop (i + 1) (int n) 1 (swap_entries i) rows)" rows0]
    by (simp add: inner)
qed

lemma well_formed_square:
  "isSquare M \<Longrightarrow> well_formed M = square_rows (nrows M) (array_M M)"
  by (auto simp: well_formed_def square_rows_def isSquare_def list_all_length)

lemma transposeInPlace_entries:
  assumes "isSquare M" and "well_formed M"
  obtains M' where "transposeInPlace M = Inr M'" "nrows M' = nrows M" "ncols M' = ncols M"
    "well_formed M'"
    "\<And>p q. p < nrows M \<Longrightarrow> q < nrows M \<Longrightarrow> array_M M' ! p ! q = array_M M ! q ! p"
proof -
  define n where "n = nrows M"
  define rows where "rows = fold (\<lambda>i rows. fold (\<lambda>k. swap_entries (int i) (int k)) [Suc i..<n] rows)
    [0..<n] (array_M M)"
  have n: "ncols M = n" using assms(1) by (simp add: isSquare_def n_def)
  have "square_rows n (array_M M)"
    using assms by (simp add: well_formed_square n_def)
  then have fin: "transposed_below n n (array_M M) rows"
    unfolding rows_def by (rule transposed_below_outer) simp
  have result: "transposeInPlace M = Inr (M\<lparr>array_M := rows\<rparr>)"
    using assms(1) transposeInPlace_loops[of n "array_M M"]
    by (simp add: transposeInPlace_def rows_def n n_def[symmetric])
  have sq: "isSquare (M\<lparr>array_M := rows\<rparr>)" using assms(1) by (simp add: isSquare_def)
  show thesis
  proof (rule that[OF result])
    show "well_formed (M\<lparr>array_M := rows\<rparr>)"
      using fin by (simp add: well_formed_square[OF sq] transposed_below_def n_def)
    show "array_M (M\<lparr>array_M := rows\<rparr>) ! p ! q = array_M M ! q ! p"
      if "p < nrows M" "q < nrows M" for p q
      using fin that by (simp add: transposed_below_def n_def min_def)
  qed simp_all
qed

lemma transposeInPlace_twice:
  assumes "isSquare M" and "well_formed M"
  shows "and_then (transposeInPlace M) transposeInPlace = Inr M"
proof -
  obtain M1 where M1: "transposeInPlace M = Inr M1" "nrows M1 = nrows M" "ncols M1 = ncols M"
    "well_formed M1"
    "\<And>p q. p < nrows M \<Longrightarrow> q < nrows M \<Longrightarrow> array_M M1 ! p ! q = array_M M ! q ! p"
    using transposeInPlace_entries[OF assms] by blast
  have sq1: "isSquare M1" using assms(1) M1(2,3) by (simp add: isSquare_def)
  obtain M2 where M2: "transposeInPlace M1 = Inr M2" "nrows M2 = nrows M1" "ncols M2 = ncols M1"
    "well_formed M2"
    "\<And>p q. p < nrows M1 \<Longrightarrow> q < nrows M1 \<Longrightarrow> array_M M2 ! p ! q = array_M M1 ! q ! p"
    using transposeInPlace_entries[OF sq1 M1(4)] by blast
  have sq2: "isSquare M2" using sq1 M2(2,3) by (simp add: isSquare_def)
  have a: "square_rows (nrows M) (array_M M)" using assms by (simp add: well_formed_square)
  have b: "square_rows (nrows M) (array_M M2)"
    using M2(4) well_formed_square[OF sq2] M2(2) M1(2) by simp
  have "array_M M2 = array_M M"
  proof (rule nth_equalityI)
    show "length (array_M M2) = length (array_M M)"
      using a b by (simp add: square_rows_def)
  next
    fix p assume "p < length (array_M M2)"
    then have p: "p < nrows M" using b by (simp add: square_rows_def)
    show "array_M M2 ! p = array_M M ! p"
    proof (rule nth_equalityI)
      show "length (array_M M2 ! p) = length (array_M M ! p)"
        using a b p by (simp add: square_rows_def)
    next
      fix q assume "q < length (array_M M2 ! p)"
      then have q: "q < nrows M" using b p by (simp add: square_rows_def)
      show "array_M M2 ! p ! q = array_M M ! p ! q"
        using M2(5)[of p q] M1(5)[of q p] p q M1(2) by simp
    qed
  qed
  moreover have "transposeInPlace M1 = Inr (M1\<lparr>array_M := array_M M2\<rparr>)"
    using M2(1) sq1 by (auto simp: transposeInPlace_def)
  moreover have "M1\<lparr>array_M := array_M M\<rparr> = M"
    using M1(1) assms(1) by (auto simp: transposeInPlace_def)
  ultimately show ?thesis
    by (simp add: and_then_def M1(1))
qed

text \<open>
  So whenever the call returns for a square, well-formed \<open>B\<close>, it leaves \<open>B\<close> as it was;
  and for a \<open>B\<close> that is not square it never returns, with \<open>B\<close> untouched.
\<close>

lemma wkMatrixMatrixPlus_square_restores:
  assumes "isSquare B" and "well_formed B"
    and "snd (wkMatrixMatrixPlus g alpha A B tg rb beta C) = Inr m"
  shows "fst (wkMatrixMatrixPlus g alpha A B tg rb beta C) = B"
proof -
  obtain B1 where B1: "transposeInPlace B = Inr B1"
    using transposeInPlace_entries[OF assms(1,2)] by blast
  have again: "transposeInPlace B1 = Inr B"
    using transposeInPlace_twice[OF assms(1,2)] by (simp add: and_then_def B1)
  show ?thesis
    using assms(1,3)
    by (auto simp: wkMatrixMatrixPlus_def B1 again Let_def split: sum.splits)
qed

lemma wkMatrixMatrixPlus_not_square:
  assumes "\<not> isSquare B"
  shows "fst (wkMatrixMatrixPlus g alpha A B tg rb beta C) = B \<and>
         (\<exists>e. snd (wkMatrixMatrixPlus g alpha A B tg rb beta C) = Inl e)"
  using assms
  by (auto simp: wkMatrixMatrixPlus_def transposeInPlace_def Let_def split: sum.splits)

section \<open>Triggers and events\<close>

lemma register_all_single:
  "triggers (register_all regs w) tg = Some fns \<Longrightarrow> triggers w tg = Some fns \<or> length fns = 1"
proof (induction regs arbitrary: w)
  case Nil
  then show ?case by (simp add: register_all_def)
next
  case (Cons r regs)
  obtain t cb where r: "r = (t, cb)" by (cases r)
  have "register_all (r # regs) w = register_all regs (MathWorker_on t cb w)"
    by (simp add: register_all_def r)
  with Cons have "triggers (MathWorker_on t cb w) tg = Some fns \<or> length fns = 1"
    by simp
  then show ?case
    by (auto simp: MathWorker_on_def split: if_splits)
qed

text \<open>
  C8. After \<^verbatim>\<open>on(tag, h1)\<close> and then \<^verbatim>\<open>on(tag, h2)\<close>, a trigger for the tag calls \<open>h2\<close>
  once and nothing else, on the worker (\<^verbatim>\<open>MW.MathWorker.on\<close> and \<^verbatim>\<open>handleTrigger\<close>) and
  on an \<^verbatim>\<open>EventEmitter\<close> (\<^verbatim>\<open>on\<close> and \<^verbatim>\<open>emit\<close>). A registration replaces the array of
  the tag by the one callback, so after any sequence of registrations every registered
  tag has exactly one.
\<close>

theorem latest_registration_wins:
  "handleTrigger (MathWorker_on tg (Function h2) (MathWorker_on tg (Function h1) w)) tg dat obj =
     [Called h2 (js_or (js_or dat obj) (Array []))] \<and>
   and_then (EventEmitter_on tg (Function h1) e) (\<lambda>e1.
     and_then (EventEmitter_on tg (Function h2) e1) (\<lambda>e2.
       Inr (fst (emit tg args e2)))) = Inr [Called h2 (js_or args (Array []))] \<and>
   triggers (MathWorker_on tg callback w) tg = Some [callback] \<and>
   (\<forall>t fns. triggers (register_all regs new_MathWorker) t = Some fns \<longrightarrow> length fns = 1)"
proof (intro conjI allI impI)
  fix t fns
  assume "triggers (register_all regs new_MathWorker) t = Some fns"
  then show "length fns = 1"
    using register_all_single[of regs new_MathWorker t fns]
    by (simp add: new_MathWorker_def)
qed (simp_all add: handleTrigger_def MathWorker_on_def EventEmitter_on_def emit_def and_then_def
    checkFunction_def checkNullOrUndefined_def nullOrUndefined_def)

text \<open>
  Three registrations, two of them for \<open>go\<close>: the tag holds the later callback only,
  and a trigger calls it once.
\<close>

theorem latest_registration_wins_witness:
  "triggers (register_all [(''go'', Function ''first''), (''stop'', Function ''halt''),
       (''go'', Function ''second'')] new_MathWorker) ''go'' = Some [Function ''second''] \<and>
   length [Function ''second''] = 1 \<and>
   handleTrigger (register_all [(''go'', Function ''first''), (''stop'', Function ''halt''),
       (''go'', Function ''second'')] new_MathWorker) ''go'' Undefined Undefined =
     [Called ''second'' (Array [])]"
proof -
  define regs where "regs = [(''go'', Function ''first''), (''stop'', Function ''halt''),
    (''go'', Function ''second'')]"
  have reg: "triggers (register_all regs new_MathWorker) ''go'' = Some [Function ''second'']"
    by (simp add: regs_def register_all_def MathWorker_on_def new_MathWorker_def)
  have one: "length [Function ''second''] = 1"
    using latest_registration_wins[of "''go''" "''a''" "''b''" new_MathWorker Undefined Undefined
        "\<lparr>events = Map.empty\<rparr>" Undefined Undefined regs] reg
    by blast
  have "handleTrigger (register_all regs new_MathWorker) ''go'' Undefined Undefined =
      [Called ''second'' (Array [])]"
    by (simp add: handleTrigger_def reg js_or_def)
  with reg one show ?thesis unfolding regs_def by simp
qed

section \<open>The pool\<close>

lemma start_workers_length:
  "length (workerPool (fold (\<lambda>k. start_worker n s (int k)) ks g)) = length (workerPool g) + length ks"
  by (induction ks arbitrary: g) (simp_all add: start_worker_def Let_def)

text \<open>
  C9. On a host without \<^verbatim>\<open>Worker\<close>, \<^verbatim>\<open>createPool\<close> throws the Error of
  \<^verbatim>\<open>checkWebWorkerSupport\<close> and leaves \<^verbatim>\<open>global\<close> as it was: no worker has been
  created. On a host with \<^verbatim>\<open>Worker\<close> it does not throw, and the pool has grown by the
  number of workers asked for.
\<close>

theorem createPool_needs_Worker:
  "(\<not> Worker_defined h \<longrightarrow>
      createPool h n s g = (g, Some (Error ''Web Worker support not available for MathWorkers.''))) \<and>
   (Worker_defined h \<longrightarrow>
      snd (createPool h n s g) = None \<and>
      length (workerPool (fst (createPool h n s g))) = length (workerPool g) + n)"
  using for_loop_nat[of 0 n "start_worker n s" g] start_workers_length[of n s "[0..<n]" g]
  by (simp add: createPool_def checkWebWorkerSupport_def)

text \<open>A pool of two workers, on a host without and on a host with \<^verbatim>\<open>Worker\<close>.\<close>

theorem createPool_needs_Worker_witness:
  "createPool \<lparr>Worker_defined = False\<rparr> 2 ''worker.js''
     \<lparr>workerPool = [], nWorkers = 1, myWorkerId = 0, logLevel = 1, unrollLoops = False\<rparr> =
     (\<lparr>workerPool = [], nWorkers = 1, myWorkerId = 0, logLevel = 1, unrollLoops = False\<rparr>,
      Some (Error ''Web Worker support not available for MathWorkers.'')) \<and>
   snd (createPool \<lparr>Worker_defined = True\<rparr> 2 ''worker.js''
     \<lparr>workerPool = [], nWorkers = 1, myWorkerId = 0, logLevel = 1, unrollLoops = False\<rparr>) = None \<and>
   length (workerPool (fst (createPool \<lparr>Worker_defined = True\<rparr> 2 ''worker.js''
     \<lparr>workerPool = [], nWorkers = 1, myWorkerId = 0, logLevel = 1, unrollLoops = False\<rparr>))) = 2"
  using createPool_needs_Worker[of "\<lparr>Worker_defined = False\<rparr>" 2 "''worker.js''"
      "\<lparr>workerPool = [], nWorkers = 1, myWorkerId = 0, logLevel = 1, unrollLoops = False\<rparr>"]
    createPool_needs_Worker[of "\<lparr>Worker_defined = True\<rparr>" 2 "''worker.js''"
      "\<lparr>workerPool = [], nWorkers = 1, myWorkerId = 0, logLevel = 1, unrollLoops = False\<rparr>"]
  by simp


end
